theory Spec2Isabelle
  imports Complex_Main
begin

section \<open>JavaScript values\<close>

text \<open>
  The strategy handles untyped data: request fields, the provider's parsed JSON, whatever
  the verify callback hands back. \<open>jsval\<close> is the tree of values \<^verbatim>\<open>JSON.parse\<close> can
  build, plus \<^verbatim>\<open>undefined\<close> for a property that is not there and the built-in
  functions, which a property read can find on a prototype (\<^verbatim>\<open>({}).constructor\<close> is
  \<^verbatim>\<open>Object\<close>); a built-in function is known by its name. A number is a double that is
  not NaN: a rational (\<^verbatim>\<open>-0\<close> is \<open>0\<close>, which \<^verbatim>\<open>==\<close> and truthiness cannot tell
  apart) or an infinity, which \<^verbatim>\<open>JSON.parse\<close> gives on overflow. An object is the
  association list of its own properties; the first binding of a key is the one read.
\<close>

datatype jsnum = Finite rat | PosInfinity | NegInfinity

datatype jsval =
    JUndefined
  | JNull
  | JBool bool
  | JNum jsnum
  | JStr string
  | JArr "jsval list"
  | JObj "(string \<times> jsval) list"
  | JFunction string

text \<open>ToBoolean: what \<^verbatim>\<open>if (x)\<close>, \<^verbatim>\<open>!x\<close>, \<^verbatim>\<open>&&\<close> and \<^verbatim>\<open>||\<close> test.\<close>

fun truthy :: "jsval \<Rightarrow> bool" where
  "truthy JUndefined = False"
| "truthy JNull = False"
| "truthy (JBool b) = b"
| "truthy (JNum n) = (n \<noteq> Finite 0)"
| "truthy (JStr s) = (s \<noteq> [])"
| "truthy (JArr xs) = True"
| "truthy (JObj kvs) = True"
| "truthy (JFunction n) = True"

definition nullish :: "jsval \<Rightarrow> bool" where
  "nullish v = (v = JUndefined \<or> v = JNull)"

text \<open>The own property \<open>k\<close> of a parsed object, when it has one.\<close>

fun own :: "jsval \<Rightarrow> string \<Rightarrow> jsval option" where
  "own (JObj kvs) k = map_of kvs k"
| "own v k = None"

datatype js_error =
    SyntaxError
  | TypeError
  | InternalOAuthError jsval jsval

subsection \<open>The parts of the runtime that are not modelled\<close>

text \<open>
  Four things the engine does are parameters, and every theorem below holds whatever
  they compute:
  \<^item> \<open>JSON_parse\<close>: \<^verbatim>\<open>JSON.parse\<close> on a string, \<open>None\<close> when it throws its SyntaxError;
  \<^item> \<open>ToString\<close>: the conversion to a string of a number, an array, an object or a
    function, \<open>None\<close> when it throws a TypeError (an object whose \<^verbatim>\<open>toString\<close> and
    \<^verbatim>\<open>valueOf\<close> give no primitive);
  \<^item> \<open>coerce_eq\<close>: \<^verbatim>\<open>==\<close> between operands of different types, where one is converted
    to the other's type; \<open>None\<close> when that conversion throws a TypeError;
  \<^item> \<open>Inherited\<close>: what \<^verbatim>\<open>v[k]\<close> gives when \<open>k\<close> is not an own property of a parsed
    object: the members found on the prototype chain (\<^verbatim>\<open>constructor\<close>,
    \<^verbatim>\<open>toString\<close>, ...) and the built-in members of strings, arrays and functions
    (\<^verbatim>\<open>length\<close>, the indices), \<^verbatim>\<open>undefined\<close> for any other name.
\<close>

record runtime =
  JSON_parse :: "string \<Rightarrow> jsval option"
  ToString :: "jsval \<Rightarrow> string option"
  coerce_eq :: "jsval \<Rightarrow> jsval \<Rightarrow> bool option"
  Inherited :: "jsval \<Rightarrow> string \<Rightarrow> jsval"

text \<open>
  \<^verbatim>\<open>v[k]\<close> and \<^verbatim>\<open>v.k\<close> on a value that is neither \<^verbatim>\<open>null\<close> nor \<^verbatim>\<open>undefined\<close>: the
  own property when there is one, else what the value inherits.
\<close>

definition js_get :: "runtime \<Rightarrow> jsval \<Rightarrow> string \<Rightarrow> jsval" where
  "js_get rt v k = (case own v k of Some x \<Rightarrow> x | None \<Rightarrow> Inherited rt v k)"

text \<open>\<^verbatim>\<open>v.k\<close> with no guard before it: a TypeError on \<^verbatim>\<open>null\<close> and \<^verbatim>\<open>undefined\<close>.\<close>

definition read_prop :: "runtime \<Rightarrow> jsval \<Rightarrow> string \<Rightarrow> js_error + jsval" where
  "read_prop rt v k = (if nullish v then Inl TypeError else Inr (js_get rt v k))"

text \<open>\<^verbatim>\<open>v && v[k]\<close>: the left operand itself when it is falsy.\<close>

definition and_prop :: "runtime \<Rightarrow> jsval \<Rightarrow> string \<Rightarrow> jsval" where
  "and_prop rt v k = (if truthy v then js_get rt v k else v)"

text \<open>\<^verbatim>\<open>a || b\<close>.\<close>

definition js_or :: "jsval \<Rightarrow> jsval \<Rightarrow> jsval" where
  "js_or a b = (if truthy a then a else b)"

text \<open>ToString; \<open>None\<close> is the TypeError of a value that has no primitive.\<close>

fun to_string :: "runtime \<Rightarrow> jsval \<Rightarrow> string option" where
  "to_string rt (JStr s) = Some s"
| "to_string rt JUndefined = Some ''undefined''"
| "to_string rt JNull = Some ''null''"
| "to_string rt (JBool True) = Some ''true''"
| "to_string rt (JBool False) = Some ''false''"
| "to_string rt v = ToString rt v"

text \<open>
  \<^verbatim>\<open>JSON.parse(v)\<close>: the argument is converted to a string first, and the text parsed.
  Either step can throw.
\<close>

definition json_parse :: "runtime \<Rightarrow> jsval \<Rightarrow> js_error + jsval" where
  "json_parse rt v =
     (case to_string rt v of
        None \<Rightarrow> Inl TypeError
      | Some s \<Rightarrow> (case JSON_parse rt s of None \<Rightarrow> Inl SyntaxError | Some js \<Rightarrow> Inr js))"

text \<open>The type \<^verbatim>\<open>==\<close> goes by: arrays, objects and functions are all Object.\<close>

datatype jstype = TUndefined | TNull | TBoolean | TNumber | TString | TObject

fun type_of :: "jsval \<Rightarrow> jstype" where
  "type_of JUndefined = TUndefined"
| "type_of JNull = TNull"
| "type_of (JBool b) = TBoolean"
| "type_of (JNum n) = TNumber"
| "type_of (JStr s) = TString"
| "type_of (JArr xs) = TObject"
| "type_of (JObj kvs) = TObject"
| "type_of (JFunction n) = TObject"

text \<open>
  Two objects are \<^verbatim>\<open>==\<close> when they are one object. The objects compared here are read
  from different places of a parsed tree, and \<^verbatim>\<open>JSON.parse\<close> never shares a node; a
  built-in function is the same object wherever it is found.
\<close>

definition same_object :: "jsval \<Rightarrow> jsval \<Rightarrow> bool" where
  "same_object x y = (case x of JFunction n \<Rightarrow> y = JFunction n | _ \<Rightarrow> False)"

text \<open>
  \<^verbatim>\<open>x == y\<close>; \<open>None\<close> when it throws. \<^verbatim>\<open>null\<close> and \<^verbatim>\<open>undefined\<close> equal each other
  and nothing else; two objects are compared by reference; two primitives of one type
  are equal when they are the same value; everything else goes through the runtime's
  coercions.
\<close>

definition loose_eq :: "runtime \<Rightarrow> jsval \<Rightarrow> jsval \<Rightarrow> bool option" where
  "loose_eq rt x y =
     (if nullish x \<or> nullish y then Some (nullish x \<and> nullish y)
      else if type_of x = TObject \<and> type_of y = TObject then Some (same_object x y)
      else if type_of x = type_of y then Some (x = y)
      else coerce_eq rt x y)"

section \<open>The strategy and its collaborators\<close>

record request =
  body :: jsval
  query :: jsval
  headers :: jsval

record email =
  email_value :: jsval
  email_type :: string
  email_primary :: "bool option"

record photo =
  photo_value :: string

record person_name =
  familyName :: jsval
  givenName :: jsval

text \<open>
  The profile object of \<^verbatim>\<open>userProfile\<close>. \<open>profile_id\<close> is its \<^verbatim>\<open>id\<close>, \<open>raw\<close> and
  \<open>json\<close> are \<^verbatim>\<open>_raw\<close> and \<^verbatim>\<open>_json\<close>. An email's \<^verbatim>\<open>primary\<close> property is either
  never set (\<open>None\<close>) or set to \<^verbatim>\<open>true\<close>.
\<close>

record profile =
  provider :: string
  profile_id :: jsval
  username :: jsval
  displayName :: jsval
  name :: person_name
  emails :: "email list"
  photos :: "photo list"
  raw :: jsval
  json :: jsval

text \<open>The arguments \<^verbatim>\<open>_verify\<close> is called with, before the \<^verbatim>\<open>verified\<close> callback.\<close>

datatype verify_args =
    WithReq request jsval jsval profile
  | WithoutReq jsval jsval profile

text \<open>
  The strategy object: \<open>strategy_name\<close> is \<^verbatim>\<open>this.name\<close>, the others are the fields
  with a leading underscore. \<open>verify\<close> is the application's callback, as the triple
  \<^verbatim>\<open>(error, user, info)\<close> it passes to \<^verbatim>\<open>done\<close>; \<open>oauth2_get\<close> is
  \<^verbatim>\<open>_oauth2.get(url, accessToken, callback)\<close>, as the pair \<^verbatim>\<open>(error, body)\<close> it calls
  back with. Both collaborators are taken to call back once and not to throw.
\<close>

record strategy =
  strategy_name :: string
  accessTokenField :: string
  refreshTokenField :: string
  profileURL :: string
  passReqToCallback :: jsval
  verify :: "verify_args \<Rightarrow> jsval \<times> jsval \<times> jsval"
  oauth2_get :: "string \<Rightarrow> jsval \<Rightarrow> jsval \<times> jsval"

record options =
  opt_accessTokenField :: "string option"
  opt_refreshTokenField :: "string option"
  opt_profileURL :: "string option"
  opt_passReqToCallback :: jsval

text \<open>\<^verbatim>\<open>options.field || 'default'\<close>: an empty string is falsy too.\<close>

definition or_default :: "string option \<Rightarrow> string \<Rightarrow> string" where
  "or_default v d = (case v of None \<Rightarrow> d | Some s \<Rightarrow> if s \<noteq> [] then s else d)"

text \<open>
  The constructor of src/index.js, given the collaborators the base class holds. The
  authorization and token URLs it fills in go to the base class and are not read by
  this code again. A field name is a string here, as the configuration documents it.
\<close>

definition WindowsLiveTokenStrategy ::
  "options \<Rightarrow> (verify_args \<Rightarrow> jsval \<times> jsval \<times> jsval) \<Rightarrow> (string \<Rightarrow> jsval \<Rightarrow> jsval \<times> jsval) \<Rightarrow> strategy"
where
  "WindowsLiveTokenStrategy opts vf fetch =
     \<lparr> strategy_name = ''windows-live-token'',
       accessTokenField = or_default (opt_accessTokenField opts) ''access_token'',
       refreshTokenField = or_default (opt_refreshTokenField opts) ''refresh_token'',
       profileURL = or_default (opt_profileURL opts) ''https://apis.live.net/v5.0/me'',
       passReqToCallback = opt_passReqToCallback opts,
       verify = vf,
       oauth2_get = fetch \<rparr>"

text \<open>
  The three signals of the base class: \<^verbatim>\<open>this.success(user, info)\<close>,
  \<^verbatim>\<open>this.fail(info)\<close> and \<^verbatim>\<open>this.error(err)\<close>, where \<^verbatim>\<open>err\<close> is either an
  exception \<^verbatim>\<open>userProfile\<close> handed over or the value the verify callback supplied.
\<close>

datatype failure = Thrown js_error | Supplied jsval

datatype outcome =
    Success jsval jsval
  | Fail jsval
  | Error failure

section \<open>userProfile\<close>

text \<open>One of the four \<^verbatim>\<open>if (json.emails && json.emails.c) profile.emails.push(...)\<close>.\<close>

definition push_email :: "runtime \<Rightarrow> jsval \<Rightarrow> string \<Rightarrow> string \<Rightarrow> email list \<Rightarrow> email list" where
  "push_email rt js c t es =
     (if truthy (and_prop rt (js_get rt js ''emails'') c)
      then es @ [\<lparr> email_value = js_get rt (js_get rt js ''emails'') c, email_type = t,
                   email_primary = None \<rparr>]
      else es)"

definition push_emails :: "runtime \<Rightarrow> jsval \<Rightarrow> email list" where
  "push_emails rt js =
     push_email rt js ''other'' ''other''
       (push_email rt js ''business'' ''work''
         (push_email rt js ''personal'' ''home''
           (push_email rt js ''account'' ''account'' [])))"

text \<open>
  The loop \<^verbatim>\<open>for (let i = 0; i < profile.emails.length; i++)\<close>, from index \<open>i\<close> on;
  \<open>None\<close> when a comparison throws.
\<close>

function mark_primary :: "runtime \<Rightarrow> jsval \<Rightarrow> nat \<Rightarrow> email list \<Rightarrow> email list option" where
  "mark_primary rt preferred i es =
     (if i < length es
      then (case loose_eq rt (email_value (es ! i)) preferred of
              None \<Rightarrow> None
            | Some eq \<Rightarrow>
                mark_primary rt preferred (Suc i)
                  (if eq then es[i := (es ! i)\<lparr> email_primary := Some True \<rparr>] else es))
      else Some es)"
  by pat_completeness auto
termination
  by (relation "measure (\<lambda>(rt, preferred, i, es). length es - i)") auto

text \<open>
  The body of the second \<^verbatim>\<open>try\<close>, after \<^verbatim>\<open>JSON.parse(body)\<close> has returned \<open>js\<close>.
  Three things in it can throw a TypeError, which the \<^verbatim>\<open>catch\<close> hands to \<^verbatim>\<open>done\<close>:
  the first property read, \<^verbatim>\<open>json.id\<close>, when the body was \<^verbatim>\<open>null\<close>; the
  concatenation that builds the photo's URL, when \<^verbatim>\<open>json.id\<close> has no primitive; and
  a comparison of the loop.
\<close>

definition build_profile :: "runtime \<Rightarrow> jsval \<Rightarrow> jsval \<Rightarrow> js_error + profile" where
  "build_profile rt b js =
     (case read_prop rt js ''id'' of
        Inl e \<Rightarrow> Inl e
      | Inr i \<Rightarrow>
          (case to_string rt i of
             None \<Rightarrow> Inl TypeError
           | Some s \<Rightarrow>
               (case (if truthy (and_prop rt (js_get rt js ''emails'') ''preferred'')
                      then mark_primary rt (js_get rt (js_get rt js ''emails'') ''preferred'') 0
                             (push_emails rt js)
                      else Some (push_emails rt js)) of
                  None \<Rightarrow> Inl TypeError
                | Some es \<Rightarrow>
                    Inr \<lparr> provider = ''windows-live'',
                          profile_id = i,
                          username = js_or (js_get rt js ''username'') (JStr ''''),
                          displayName = js_or (js_get rt js ''name'') (JStr ''''),
                          name = \<lparr> familyName = js_or (js_get rt js ''last_name'') (JStr ''''),
                                   givenName = js_or (js_get rt js ''first_name'') (JStr '''') \<rparr>,
                          emails = es,
                          photos = [\<lparr> photo_value = ''https://apis.live.net/v5.0/'' @ s @ ''/picture'' \<rparr>],
                          raw = b,
                          json = js \<rparr>)))"

text \<open>The second \<^verbatim>\<open>try\<close> as a whole: parse, then build.\<close>

definition parse_profile :: "runtime \<Rightarrow> jsval \<Rightarrow> js_error + profile" where
  "parse_profile rt b =
     (case json_parse rt b of
        Inl e \<Rightarrow> Inl e
      | Inr js \<Rightarrow> build_profile rt b js)"

text \<open>
  The first \<^verbatim>\<open>try\<close>: \<^verbatim>\<open>JSON.parse(error.data)\<close>, then
  \<^verbatim>\<open>new InternalOAuthError(errorJSON.error.message, errorJSON.error.code)\<close>. Whatever
  throws on the way (the parse, or a property read on \<^verbatim>\<open>null\<close> or \<^verbatim>\<open>undefined\<close>) lands
  in the \<^verbatim>\<open>catch\<close>, which wraps the transport error itself.
\<close>

definition provider_error :: "runtime \<Rightarrow> jsval \<Rightarrow> js_error" where
  "provider_error rt err =
     (case json_parse rt (js_get rt err ''data'') of
        Inl _ \<Rightarrow> InternalOAuthError (JStr ''Failed to fetch user profile'') err
      | Inr errorJSON \<Rightarrow>
          (case read_prop rt errorJSON ''error'' of
             Inl _ \<Rightarrow> InternalOAuthError (JStr ''Failed to fetch user profile'') err
           | Inr e \<Rightarrow>
               (case read_prop rt e ''message'' of
                  Inl _ \<Rightarrow> InternalOAuthError (JStr ''Failed to fetch user profile'') err
                | Inr m \<Rightarrow>
                    (case read_prop rt e ''code'' of
                       Inl _ \<Rightarrow> InternalOAuthError (JStr ''Failed to fetch user profile'') err
                     | Inr c \<Rightarrow> InternalOAuthError m c))))"

text \<open>\<^verbatim>\<open>userProfile(accessToken, done)\<close>: \<open>Inl e\<close> is \<^verbatim>\<open>done(e)\<close>, \<open>Inr p\<close> is \<^verbatim>\<open>done(null, p)\<close>.\<close>

definition userProfile :: "runtime \<Rightarrow> strategy \<Rightarrow> jsval \<Rightarrow> js_error + profile" where
  "userProfile rt self accessToken =
     (case oauth2_get self (profileURL self) accessToken of
        (err, b) \<Rightarrow>
          if truthy err then Inl (provider_error rt err)
          else parse_profile rt b)"

section \<open>authenticate\<close>

text \<open>
  Modelled from the spec: the base class's profile-loading hook \<^verbatim>\<open>_loadUserProfile\<close>
  belongs to the OAuth2 collaborator and is not in the repository; the spec has
  \<^verbatim>\<open>authenticate\<close> reach \<^verbatim>\<open>userProfile\<close> through it, with the same callback.
\<close>

definition loadUserProfile :: "runtime \<Rightarrow> strategy \<Rightarrow> jsval \<Rightarrow> js_error + profile" where
  "loadUserProfile rt self accessToken = userProfile rt self accessToken"

text \<open>The callback \<^verbatim>\<open>verified(error, user, info)\<close>.\<close>

definition verified :: "jsval \<times> jsval \<times> jsval \<Rightarrow> outcome" where
  "verified d =
     (case d of (err, user, info) \<Rightarrow>
        if truthy err then Error (Supplied err)
        else if \<not> truthy user then Fail info
        else Success user info)"

text \<open>
  \<^verbatim>\<open>(req.body && req.body[field]) || (req.query && req.query[field])\<close>, the expression
  of src/index.js for both tokens.
\<close>

definition read_token :: "runtime \<Rightarrow> string \<Rightarrow> 'a request_scheme \<Rightarrow> jsval" where
  "read_token rt field req = js_or (and_prop rt (body req) field) (and_prop rt (query req) field)"

definition missing_token :: "string \<Rightarrow> jsval" where
  "missing_token field = JObj [(''message'', JStr (''You should provide '' @ field))]"

definition verify_call :: "strategy \<Rightarrow> request \<Rightarrow> jsval \<Rightarrow> jsval \<Rightarrow> profile \<Rightarrow> verify_args" where
  "verify_call self req accessToken refreshToken p =
     (if truthy (passReqToCallback self)
      then WithReq req accessToken refreshToken p
      else WithoutReq accessToken refreshToken p)"

definition authenticate :: "runtime \<Rightarrow> strategy \<Rightarrow> request \<Rightarrow> outcome" where
  "authenticate rt self req =
     (let accessToken = read_token rt (accessTokenField self) req;
          refreshToken = read_token rt (refreshTokenField self) req
      in if \<not> truthy accessToken then Fail (missing_token (accessTokenField self))
         else (case loadUserProfile rt self accessToken of
                 Inl e \<Rightarrow> Error (Thrown e)
               | Inr p \<Rightarrow> verified (verify self (verify_call self req accessToken refreshToken p))))"

subsection \<open>The earlier implementation\<close>

text \<open>
  The repository's ES5 \<^verbatim>\<open>index.js\<close> has the same \<^verbatim>\<open>userProfile\<close> and the same
  callbacks, and reads the tokens differently: under the fixed names
  \<^verbatim>\<open>access_token\<close> and \<^verbatim>\<open>refresh_token\<close>, and with the request headers as a third
  place: \<^verbatim>\<open>(req.body && req.body.f) || (req.query && req.query.f) || (req.headers && req.headers.f)\<close>.
\<close>

definition read_token_legacy :: "runtime \<Rightarrow> string \<Rightarrow> 'a request_scheme \<Rightarrow> jsval" where
  "read_token_legacy rt field req =
     js_or (js_or (and_prop rt (body req) field) (and_prop rt (query req) field))
       (and_prop rt (headers req) field)"

definition authenticate_legacy :: "runtime \<Rightarrow> strategy \<Rightarrow> request \<Rightarrow> outcome" where
  "authenticate_legacy rt self req =
     (let accessToken = read_token_legacy rt ''access_token'' req;
          refreshToken = read_token_legacy rt ''refresh_token'' req
      in if \<not> truthy accessToken then Fail (missing_token ''access_token'')
         else (case loadUserProfile rt self accessToken of
                 Inl e \<Rightarrow> Error (Thrown e)
               | Inr p \<Rightarrow> verified (verify self (verify_call self req accessToken refreshToken p))))"

section \<open>What the specification says, in its own words\<close>





text \<open>What one round of the marking loop does to one entry, when its comparison returns.\<close>

definition mark :: "runtime \<Rightarrow> jsval \<Rightarrow> email \<Rightarrow> email" where
  "mark rt preferred e =
     (if loose_eq rt (email_value e) preferred = Some True
      then e\<lparr> email_primary := Some True \<rparr> else e)"

definition flagged :: "email list \<Rightarrow> email list" where
  "flagged es = filter (\<lambda>e. email_primary e = Some True) es"

section \<open>Concrete collaborators for the examples\<close>

text \<open>
  A runtime for the examples. \<open>JSON_parse\<close> is \<^verbatim>\<open>JSON.parse\<close> on the bodies they use
  and throws on any other text. Of the inherited members it knows \<^verbatim>\<open>constructor\<close>,
  which every value but \<^verbatim>\<open>null\<close> and \<^verbatim>\<open>undefined\<close> has; the examples read no other
  inherited name. They hold strings only where a conversion or a comparison is made, so
  they never reach \<open>ToString\<close> or \<open>coerce_eq\<close>, which are left throwing.
\<close>

definition roberto :: jsval where
  "roberto =
     JObj [(''id'', JStr ''8c8ce076ca27823f''),
           (''name'', JStr ''Roberto Tamburello''),
           (''first_name'', JStr ''Roberto''),
           (''last_name'', JStr ''Tamburello''),
           (''emails'', JObj [(''preferred'', JStr ''Roberto@contoso.com''),
                              (''account'', JStr ''Roberto@contoso.com''),
                              (''personal'', JStr ''Roberto@fabrikam.com''),
                              (''business'', JNull),
                              (''other'', JStr ''Roberto@adventure-works.com'')])]"

definition roberto_body :: string where
  \<open>roberto_body = ''{"id":"8c8ce076ca27823f","name":"Roberto Tamburello","first_name":"Roberto","last_name":"Tamburello","emails":{"preferred":"Roberto@contoso.com","account":"Roberto@contoso.com","personal":"Roberto@fabrikam.com","business":null,"other":"Roberto@adventure-works.com"}}''\<close>

definition shared :: jsval where
  "shared =
     JObj [(''id'', JStr ''7''),
           (''emails'', JObj [(''preferred'', JStr ''ann@contoso.com''),
                              (''account'', JStr ''ann@contoso.com''),
                              (''personal'', JStr ''ann@contoso.com'')])]"

definition shared_body :: string where
  \<open>shared_body = ''{"id":"7","emails":{"preferred":"ann@contoso.com","account":"ann@contoso.com","personal":"ann@contoso.com"}}''\<close>

text \<open>The payload of a provider error.\<close>

definition expired :: jsval where
  "expired =
     JObj [(''error'', JObj [(''code'', JStr ''request_token_expired''),
                             (''message'', JStr ''The access token has expired.'')])]"

definition expired_body :: string where
  \<open>expired_body = ''{"error":{"code":"request_token_expired","message":"The access token has expired."}}''\<close>

definition sample_inherited :: "jsval \<Rightarrow> string \<Rightarrow> jsval" where
  "sample_inherited v k =
     (if k = ''constructor''
      then (case v of
              JObj kvs \<Rightarrow> JFunction ''Object''
            | JArr xs \<Rightarrow> JFunction ''Array''
            | JStr s \<Rightarrow> JFunction ''String''
            | JNum n \<Rightarrow> JFunction ''Number''
            | JBool b \<Rightarrow> JFunction ''Boolean''
            | JFunction n \<Rightarrow> JFunction ''Function''
            | _ \<Rightarrow> JUndefined)
      else JUndefined)"

definition sample_runtime :: runtime where
  \<open>sample_runtime =
     \<lparr> JSON_parse =
         map_of [(roberto_body, roberto), (shared_body, shared), (expired_body, expired),
                 (''{}'', JObj [])],
       ToString = (\<lambda>v. None),
       coerce_eq = (\<lambda>x y. None),
       Inherited = sample_inherited \<rparr>\<close>

definition no_options :: options where
  "no_options =
     \<lparr> opt_accessTokenField = None, opt_refreshTokenField = None,
       opt_profileURL = None, opt_passReqToCallback = JUndefined \<rparr>"

text \<open>Options that rename the access-token field: to a fresh name, and to an inherited one.\<close>

definition renamed :: options where
  "renamed = no_options\<lparr> opt_accessTokenField := Some ''token'' \<rparr>"

definition constructor_field :: options where
  "constructor_field = no_options\<lparr> opt_accessTokenField := Some ''constructor'' \<rparr>"

text \<open>
  A strategy built by the constructor from \<open>opts\<close>, whose transport always calls back
  with \<open>answer\<close> and whose verify callback always calls \<^verbatim>\<open>done\<close> with \<open>d\<close>.
\<close>

definition sample_strategy :: "options \<Rightarrow> jsval \<times> jsval \<Rightarrow> jsval \<times> jsval \<times> jsval \<Rightarrow> strategy" where
  "sample_strategy opts answer d = WindowsLiveTokenStrategy opts (\<lambda>a. d) (\<lambda>url t. answer)"

definition in_body :: "jsval \<Rightarrow> request" where
  "in_body b = \<lparr> body = b, query = JUndefined, headers = JObj [] \<rparr>"

definition in_headers :: "jsval \<Rightarrow> request" where
  "in_headers h = \<lparr> body = JUndefined, query = JUndefined, headers = h \<rparr>"

definition roberto_profile :: profile where
  "roberto_profile =
     \<lparr> provider = ''windows-live'',
       profile_id = JStr ''8c8ce076ca27823f'',
       username = JStr '''',
       displayName = JStr ''Roberto Tamburello'',
       name = \<lparr> familyName = JStr ''Tamburello'', givenName = JStr ''Roberto'' \<rparr>,
       emails =
         [\<lparr> email_value = JStr ''Roberto@contoso.com'', email_type = ''account'', email_primary = Some True \<rparr>,
          \<lparr> email_value = JStr ''Roberto@fabrikam.com'', email_type = ''home'', email_primary = None \<rparr>,
          \<lparr> email_value = JStr ''Roberto@adventure-works.com'', email_type = ''other'', email_primary = None \<rparr>],
       photos = [\<lparr> photo_value = ''https://apis.live.net/v5.0/8c8ce076ca27823f/picture'' \<rparr>],
       raw = JStr roberto_body,
       json = roberto \<rparr>"

definition shared_profile :: profile where
  "shared_profile =
     \<lparr> provider = ''windows-live'',
       profile_id = JStr ''7'',
       username = JStr '''',
       displayName = JStr '''',
       name = \<lparr> familyName = JStr '''', givenName = JStr '''' \<rparr>,
       emails =
         [\<lparr> email_value = JStr ''ann@contoso.com'', email_type = ''account'', email_primary = Some True \<rparr>,
          \<lparr> email_value = JStr ''ann@contoso.com'', email_type = ''home'', email_primary = Some True \<rparr>],
       photos = [\<lparr> photo_value = ''https://apis.live.net/v5.0/7/picture'' \<rparr>],
       raw = JStr shared_body,
       json = shared \<rparr>"

text \<open>
  Requests: the tokens in the body, in the headers only, in all three places, bound to
  falsy values; and, for the field named \<^verbatim>\<open>constructor\<close>, bound to the empty string
  and not set at all.
\<close>

definition token_in_body :: request where
  "token_in_body =
     in_body (JObj [(''access_token'', JStr ''access_token''),
                    (''refresh_token'', JStr ''refresh_token'')])"

definition token_in_headers :: request where
  "token_in_headers =
     in_headers (JObj [(''access_token'', JStr ''access_token''),
                       (''refresh_token'', JStr ''refresh_token'')])"

definition token_in_both :: request where
  "token_in_both =
     \<lparr> body = JObj [(''access_token'', JStr ''from body'')],
       query = JObj [(''access_token'', JStr ''from query'')],
       headers = JObj [(''access_token'', JStr ''from headers'')] \<rparr>"

definition token_in_query :: request where
  "token_in_query =
     \<lparr> body = JObj [(''access_token'', JStr '''')],
       query = JObj [(''access_token'', JStr ''from query'')],
       headers = JObj [(''access_token'', JStr ''from headers'')] \<rparr>"


definition nothing_set :: request where
  "nothing_set = \<lparr> body = JObj [], query = JObj [], headers = JObj [] \<rparr>"


text \<open>
  A verify callback that hands back what it was called with: the tokens and the
  profile's id as the user, and as info the body of the request when it was given one.
\<close>

definition echo :: "verify_args \<Rightarrow> jsval \<times> jsval \<times> jsval" where
  "echo args =
     (case args of
        WithReq r a t p \<Rightarrow>
          (JNull, JObj [(''accessToken'', a), (''refreshToken'', t), (''id'', profile_id p)], body r)
      | WithoutReq a t p \<Rightarrow>
          (JNull, JObj [(''accessToken'', a), (''refreshToken'', t), (''id'', profile_id p)], JUndefined))"

definition echo_strategy :: "jsval \<Rightarrow> strategy" where
  "echo_strategy flag =
     WindowsLiveTokenStrategy (no_options\<lparr> opt_passReqToCallback := flag \<rparr>) echo
       (\<lambda>url t. (JNull, JStr roberto_body))"

text \<open>
  Transport errors: a provider error, a JSON payload with no \<^verbatim>\<open>error\<close> member, and
  a network failure, which has no \<^verbatim>\<open>data\<close> at all.
\<close>

definition expired_error :: jsval where
  "expired_error = JObj [(''statusCode'', JNum (Finite 401)), (''data'', JStr expired_body)]"

definition bare_error :: jsval where
  "bare_error = JObj [(''statusCode'', JNum (Finite 500)), (''data'', JStr ''{}'')]"

definition network_error :: jsval where
  "network_error = JObj [(''code'', JStr ''ECONNRESET'')]"

section \<open>Facts about the model\<close>

declare mark_primary.simps [simp del]

lemma loose_eq_strings:
  "type_of x = TString \<Longrightarrow> type_of y = TString \<Longrightarrow> loose_eq rt x y = Some (x = y)"
  by (cases x; cases y) (simp_all add: loose_eq_def nullish_def)

lemma at_most_one_match:
  "distinct (map f xs) \<Longrightarrow> length (filter (\<lambda>x. f x = a) xs) \<le> Suc 0"
  by (induction xs) (auto simp: filter_empty_conv image_iff)

lemma and_prop_truthy: "truthy (and_prop rt v k) \<Longrightarrow> and_prop rt v k = js_get rt v k"
  by (simp add: and_prop_def split: if_splits)

lemma and_prop_truthy_iff: "truthy (and_prop rt v k) = (truthy v \<and> truthy (js_get rt v k))"
  by (simp add: and_prop_def)

subsection \<open>The marking loop is a map, unless a comparison throws\<close>

lemma mark_primary_step:
  "i < length es \<Longrightarrow> loose_eq rt (email_value (es ! i)) q = Some eq \<Longrightarrow>
   (if eq then es[i := (es ! i)\<lparr> email_primary := Some True \<rparr>] else es)
     = es[i := mark rt q (es ! i)]"
  by (simp add: mark_def)

lemma mark_primary_from:
  "mark_primary rt q i es =
     (if \<forall>e \<in> set (drop i es). loose_eq rt (email_value e) q \<noteq> None
      then Some (take i es @ map (mark rt q) (drop i es))
      else None)"
proof (induction rt q i es rule: mark_primary.induct)
  case (1 rt q i es)
  show ?case
  proof (cases "i < length es")
    case False
    then show ?thesis
      by (subst mark_primary.simps) simp
  next
    case True
    then have split: "drop i es = es ! i # drop (Suc i) es"
      by (simp add: Cons_nth_drop_Suc)
    show ?thesis
    proof (cases "loose_eq rt (email_value (es ! i)) q")
      case None
      then show ?thesis
        using True by (subst mark_primary.simps) (simp add: split)
    next
      case (Some eq)
      let ?es = "es[i := mark rt q (es ! i)]"
      have "mark_primary rt q i es = mark_primary rt q (Suc i) ?es"
        using True Some by (subst mark_primary.simps) (simp add: mark_primary_step)
      also have "\<dots> =
          (if \<forall>e \<in> set (drop (Suc i) ?es). loose_eq rt (email_value e) q \<noteq> None
           then Some (take (Suc i) ?es @ map (mark rt q) (drop (Suc i) ?es))
           else None)"
        using "1.IH" [OF True Some] True Some by (simp add: mark_primary_step)
      also have "drop (Suc i) ?es = drop (Suc i) es"
        by simp
      also have "take (Suc i) ?es = take i es @ [mark rt q (es ! i)]"
        using True by (simp add: take_Suc_conv_app_nth)
      finally show ?thesis
        using Some by (simp add: split)
    qed
  qed
qed

lemma mark_primary_map:
  "mark_primary rt q 0 es =
     (if \<forall>e \<in> set es. loose_eq rt (email_value e) q \<noteq> None
      then Some (map (mark rt q) es) else None)"
  by (simp add: mark_primary_from)


subsection \<open>The emails of a built profile\<close>


lemma primary_push_emails: "e \<in> set (push_emails rt js) \<Longrightarrow> email_primary e = None"
  by (auto simp: push_emails_def push_email_def split: if_splits)

lemma truthy_push_emails: "e \<in> set (push_emails rt js) \<Longrightarrow> truthy (email_value e)"
  by (auto simp: push_emails_def push_email_def and_prop_def split: if_splits)

lemma build_profile_emails:
  "build_profile rt b js = Inr p \<Longrightarrow>
   emails p =
     (if truthy (and_prop rt (js_get rt js ''emails'') ''preferred'')
      then map (mark rt (and_prop rt (js_get rt js ''emails'') ''preferred'')) (push_emails rt js)
      else push_emails rt js)"
proof (cases "truthy (and_prop rt (js_get rt js ''emails'') ''preferred'')")
  case True
  then have "and_prop rt (js_get rt js ''emails'') ''preferred''
      = js_get rt (js_get rt js ''emails'') ''preferred''"
    by (rule and_prop_truthy)
  with True show "build_profile rt b js = Inr p \<Longrightarrow> ?thesis"
    by (auto simp: build_profile_def mark_primary_map split: sum.splits option.splits if_splits)
next
  case False
  then show "build_profile rt b js = Inr p \<Longrightarrow> ?thesis"
    by (auto simp: build_profile_def split: sum.splits option.splits)
qed

lemma build_profile_primary:
  assumes "build_profile rt b js = Inr p" and "e \<in> set (emails p)"
  shows "email_primary e =
    (if truthy (and_prop rt (js_get rt js ''emails'') ''preferred'')
        \<and> loose_eq rt (email_value e) (and_prop rt (js_get rt js ''emails'') ''preferred'') = Some True
     then Some True else None)"
  using assms
  by (auto simp: build_profile_emails mark_def primary_push_emails split: if_splits)

lemma flagged_matches:
  assumes "build_profile rt b js = Inr p"
  shows "flagged (emails p) =
    filter (\<lambda>e. truthy (and_prop rt (js_get rt js ''emails'') ''preferred'')
        \<and> loose_eq rt (email_value e) (and_prop rt (js_get rt js ''emails'') ''preferred'') = Some True)
      (emails p)"
  unfolding flagged_def
  by (rule filter_cong [OF refl]) (simp add: build_profile_primary [OF assms])

lemma userProfile_build:
  "oauth2_get self (profileURL self) tok = (err, b) \<Longrightarrow> \<not> truthy err \<Longrightarrow>
   json_parse rt b = Inr js \<Longrightarrow> userProfile rt self tok = build_profile rt b js"
  by (simp add: userProfile_def parse_profile_def)

subsection \<open>The examples, evaluated\<close>

lemma sample_get:
  "js_get sample_runtime (JObj kvs) k =
     (case map_of kvs k of
        Some x \<Rightarrow> x
      | None \<Rightarrow> if k = ''constructor'' then JFunction ''Object'' else JUndefined)"
  "js_get sample_runtime JUndefined k = JUndefined"
  by (simp_all add: js_get_def sample_runtime_def sample_inherited_def split: option.splits)

lemma sample_parse_roberto:
  "json_parse sample_runtime (JStr roberto_body) = Inr roberto"
  by (simp add: json_parse_def sample_runtime_def)

lemma sample_parse_shared:
  "json_parse sample_runtime (JStr shared_body) = Inr shared"
  by (simp add: json_parse_def sample_runtime_def shared_body_def roberto_body_def)

lemma sample_build_roberto:
  "build_profile sample_runtime (JStr roberto_body) roberto = Inr roberto_profile"
  by (auto simp: build_profile_def read_prop_def roberto_def roberto_profile_def js_or_def
      and_prop_def push_emails_def push_email_def mark_primary_map mark_def loose_eq_def
      nullish_def sample_get)

lemma sample_build_shared:
  "build_profile sample_runtime (JStr shared_body) shared = Inr shared_profile"
  by (auto simp: build_profile_def read_prop_def shared_def shared_profile_def js_or_def
      and_prop_def push_emails_def push_email_def mark_primary_map mark_def loose_eq_def
      nullish_def sample_get)

lemma sample_userProfile_roberto:
  "userProfile sample_runtime (sample_strategy opts (JNull, JStr roberto_body) d) t = Inr roberto_profile"
  by (simp add: userProfile_def sample_strategy_def WindowsLiveTokenStrategy_def
      parse_profile_def sample_parse_roberto sample_build_roberto)

lemma sample_fields:
  "accessTokenField (sample_strategy no_options a d) = ''access_token''"
  "accessTokenField (sample_strategy renamed a d) = ''token''"
  "accessTokenField (sample_strategy constructor_field a d) = ''constructor''"
  "refreshTokenField (sample_strategy no_options a d) = ''refresh_token''"
  "refreshTokenField (sample_strategy constructor_field a d) = ''refresh_token''"
  "passReqToCallback (sample_strategy opts a d) = opt_passReqToCallback opts"
  "verify (sample_strategy opts a d) x = d"
  by (simp_all add: sample_strategy_def WindowsLiveTokenStrategy_def no_options_def
      renamed_def constructor_field_def or_default_def)

lemma echo_fields:
  "accessTokenField (echo_strategy flag) = ''access_token''"
  "refreshTokenField (echo_strategy flag) = ''refresh_token''"
  "passReqToCallback (echo_strategy flag) = flag"
  "verify (echo_strategy flag) = echo"
  by (simp_all add: echo_strategy_def WindowsLiveTokenStrategy_def no_options_def or_default_def)

lemma echo_load:
  "loadUserProfile sample_runtime (echo_strategy flag) t = Inr roberto_profile"
  by (simp add: loadUserProfile_def userProfile_def echo_strategy_def WindowsLiveTokenStrategy_def
      parse_profile_def sample_parse_roberto sample_build_roberto)

lemma tokens_in_body:
  "read_token sample_runtime ''access_token'' token_in_body = JStr ''access_token''"
  "read_token sample_runtime ''refresh_token'' token_in_body = JStr ''refresh_token''"
  by (simp_all add: read_token_def token_in_body_def in_body_def js_or_def and_prop_def sample_get)

subsection \<open>Reading the token\<close>

lemma read_token_body:
  "truthy (body req) \<and> truthy (js_get rt (body req) f) \<Longrightarrow>
   read_token rt f req = js_get rt (body req) f"
  by (simp add: read_token_def js_or_def and_prop_def)

lemma read_token_query:
  "\<not> (truthy (body req) \<and> truthy (js_get rt (body req) f)) \<Longrightarrow>
   truthy (query req) \<and> truthy (js_get rt (query req) f) \<Longrightarrow>
   read_token rt f req = js_get rt (query req) f"
  by (auto simp: read_token_def js_or_def and_prop_def)

lemma read_token_none:
  "\<not> (truthy (body req) \<and> truthy (js_get rt (body req) f)) \<Longrightarrow>
   \<not> (truthy (query req) \<and> truthy (js_get rt (query req) f)) \<Longrightarrow>
   \<not> truthy (read_token rt f req)"
  by (simp add: read_token_def js_or_def and_prop_truthy_iff)

lemma read_token_legacy_eq:
  "read_token_legacy rt f req = js_or (read_token rt f req) (and_prop rt (headers req) f)"
  by (simp add: read_token_legacy_def read_token_def)


lemma js_get_inherited: "own v k = None \<Longrightarrow> js_get rt v k = Inherited rt v k"
  by (simp add: js_get_def)

subsection \<open>The two branches of authenticate\<close>

lemma authenticate_no_token:
  "\<not> truthy (read_token rt (accessTokenField self) req) \<Longrightarrow>
   authenticate rt self req = Fail (missing_token (accessTokenField self))"
  by (simp add: authenticate_def Let_def)

lemma authenticate_token:
  "truthy (read_token rt (accessTokenField self) req) \<Longrightarrow>
   authenticate rt self req =
     (case loadUserProfile rt self (read_token rt (accessTokenField self) req) of
        Inl e \<Rightarrow> Error (Thrown e)
      | Inr p \<Rightarrow>
          verified (verify self (verify_call self req (read_token rt (accessTokenField self) req)
            (read_token rt (refreshTokenField self) req) p)))"
  by (simp add: authenticate_def Let_def)

lemma authenticate_legacy_no_token:
  "\<not> truthy (read_token_legacy rt ''access_token'' req) \<Longrightarrow>
   authenticate_legacy rt self req = Fail (missing_token ''access_token'')"
  by (simp add: authenticate_legacy_def Let_def)

lemma authenticate_legacy_token:
  "truthy (read_token_legacy rt ''access_token'' req) \<Longrightarrow>
   authenticate_legacy rt self req =
     (case loadUserProfile rt self (read_token_legacy rt ''access_token'' req) of
        Inl e \<Rightarrow> Error (Thrown e)
      | Inr p \<Rightarrow>
          verified (verify self (verify_call self req (read_token_legacy rt ''access_token'' req)
            (read_token_legacy rt ''refresh_token'' req) p)))"
  by (simp add: authenticate_legacy_def Let_def)

lemma verified_cases:
  "verified (err, user, info) =
     (if truthy err then Error (Supplied err)
      else if \<not> truthy user then Fail info
      else Success user info)"
  by (simp add: verified_def)

subsection \<open>The error a transport failure becomes\<close>

lemma provider_error_message:
  "json_parse rt (js_get rt err ''data'') = Inr ej \<Longrightarrow> \<not> nullish ej \<Longrightarrow>
   \<not> nullish (js_get rt ej ''error'') \<Longrightarrow>
   provider_error rt err =
     InternalOAuthError (js_get rt (js_get rt ej ''error'') ''message'')
       (js_get rt (js_get rt ej ''error'') ''code'')"
  by (simp add: provider_error_def read_prop_def)

lemma provider_error_generic:
  "isl (json_parse rt (js_get rt err ''data''))
     \<or> json_parse rt (js_get rt err ''data'') = Inr ej
        \<and> (nullish ej \<or> nullish (js_get rt ej ''error'')) \<Longrightarrow>
   provider_error rt err = InternalOAuthError (JStr ''Failed to fetch user profile'') err"
  by (auto simp: provider_error_def read_prop_def isl_def)

section \<open>The claims\<close>

subsection \<open>C1: which emails are flagged primary\<close>

text \<open>
  C1 says that at most one entry of \<^verbatim>\<open>emails\<close> is flagged primary, that an entry is
  flagged exactly when its value equals \<^verbatim>\<open>emails.preferred\<close>, and that none is when
  \<^verbatim>\<open>preferred\<close> is absent. The loop has no \<^verbatim>\<open>break\<close>: it flags every entry whose
  value \<^verbatim>\<open>==\<close> a truthy \<^verbatim>\<open>preferred\<close> and leaves the others without the property.
  So, for every profile \<open>p\<close> built from a parsed body \<open>js\<close>, by the mapping itself or
  by \<^verbatim>\<open>userProfile\<close> after a fetch that returned the body, and with \<^verbatim>\<open>preferred\<close>
  standing for \<^verbatim>\<open>json.emails && json.emails.preferred\<close>:
  \<^item> an entry is flagged exactly when \<^verbatim>\<open>preferred\<close> is truthy and the entry's value
    \<^verbatim>\<open>==\<close> it, and has no \<^verbatim>\<open>primary\<close> property otherwise;
  \<^item> nothing is flagged when \<^verbatim>\<open>preferred\<close> is absent or falsy;
  \<^item> when \<^verbatim>\<open>preferred\<close> and all the addresses are strings, the flagged entries are
    those whose address is the string \<^verbatim>\<open>preferred\<close>;
  \<^item> when, in addition, no two entries carry the same address, at most one entry is
    flagged.
\<close>

theorem primary_marks_every_match:
  assumes "build_profile rt b js = Inr p
      \<or> (oauth2_get self (profileURL self) tok = (err, b) \<and> \<not> truthy err
           \<and> json_parse rt b = Inr js \<and> userProfile rt self tok = Inr p)"
  shows "(\<forall>e \<in> set (emails p).
            email_primary e =
              (if truthy (and_prop rt (js_get rt js ''emails'') ''preferred'')
                  \<and> loose_eq rt (email_value e) (and_prop rt (js_get rt js ''emails'') ''preferred'')
                       = Some True
               then Some True else None))
       \<and> (\<not> truthy (and_prop rt (js_get rt js ''emails'') ''preferred'') \<longrightarrow> flagged (emails p) = [])
       \<and> (type_of (and_prop rt (js_get rt js ''emails'') ''preferred'') = TString
            \<and> (\<forall>e \<in> set (emails p). type_of (email_value e) = TString)
            \<longrightarrow> flagged (emails p) =
                  filter (\<lambda>e. email_value e = and_prop rt (js_get rt js ''emails'') ''preferred'')
                    (emails p))
       \<and> (type_of (and_prop rt (js_get rt js ''emails'') ''preferred'') = TString
            \<and> (\<forall>e \<in> set (emails p). type_of (email_value e) = TString)
            \<and> distinct (map email_value (emails p))
            \<longrightarrow> length (flagged (emails p)) \<le> 1)"
proof -
  let ?pref = "and_prop rt (js_get rt js ''emails'') ''preferred''"
  have built: "build_profile rt b js = Inr p"
    using assms by (auto simp: userProfile_build)
  have every: "\<forall>e \<in> set (emails p).
      email_primary e =
        (if truthy ?pref \<and> loose_eq rt (email_value e) ?pref = Some True then Some True else None)"
    using build_profile_primary [OF built] by blast
  have none: "flagged (emails p) = []" if "\<not> truthy ?pref"
    using that by (simp add: flagged_matches [OF built])
  have strings: "flagged (emails p) = filter (\<lambda>e. email_value e = ?pref) (emails p)"
    if s: "type_of ?pref = TString" "\<forall>e \<in> set (emails p). type_of (email_value e) = TString"
  proof -
    have "\<And>e. e \<in> set (emails p) \<Longrightarrow>
        (truthy ?pref \<and> loose_eq rt (email_value e) ?pref = Some True) = (email_value e = ?pref)"
    proof -
      fix e assume e: "e \<in> set (emails p)"
      have t: "truthy (email_value e)"
        using e built
        by (auto simp: build_profile_emails mark_def dest: truthy_push_emails split: if_splits)
      have "loose_eq rt (email_value e) ?pref = Some (email_value e = ?pref)"
        using s e by (simp add: loose_eq_strings)
      with t show "(truthy ?pref \<and> loose_eq rt (email_value e) ?pref = Some True)
          = (email_value e = ?pref)"
        by auto
    qed
    then show ?thesis
      unfolding flagged_matches [OF built] by (rule filter_cong [OF refl])
  qed
  have one: "length (flagged (emails p)) \<le> 1"
    if "type_of ?pref = TString" "\<forall>e \<in> set (emails p). type_of (email_value e) = TString"
       "distinct (map email_value (emails p))"
    using that strings at_most_one_match [of email_value "emails p" ?pref] by simp
  from every none strings one show ?thesis by blast
qed

text \<open>The theorem at the sample response: three addresses, all different, one flagged.\<close>

theorem primary_marks_every_match_witness:
  "build_profile sample_runtime (JStr roberto_body) roberto = Inr roberto_profile
   \<and> type_of (and_prop sample_runtime (js_get sample_runtime roberto ''emails'') ''preferred'') = TString
   \<and> distinct (map email_value (emails roberto_profile))
   \<and> map email_primary (emails roberto_profile) = [Some True, None, None]
   \<and> length (flagged (emails roberto_profile)) \<le> 1"
proof -
  have b: "build_profile sample_runtime (JStr roberto_body) roberto = Inr roberto_profile"
    by (rule sample_build_roberto)
  have s: "type_of (and_prop sample_runtime (js_get sample_runtime roberto ''emails'') ''preferred'')
      = TString"
    by (simp add: roberto_def and_prop_def sample_get)
  have t: "\<forall>e \<in> set (emails roberto_profile). type_of (email_value e) = TString"
    by (simp add: roberto_profile_def)
  have d: "distinct (map email_value (emails roberto_profile))"
    by (simp add: roberto_profile_def)
  have "length (flagged (emails roberto_profile)) \<le> 1"
    using primary_marks_every_match
      [of sample_runtime "JStr roberto_body" roberto roberto_profile, OF disjI1, OF b] s t d
    by blast
  moreover have "map email_primary (emails roberto_profile) = [Some True, None, None]"
    by (simp add: roberto_profile_def)
  ultimately show ?thesis using b s d by simp
qed

text \<open>
  Against C1 as it is written: a user whose account address is also the personal one.
  \<^verbatim>\<open>userProfile\<close> flags both entries.
\<close>

theorem two_primary_entries:
  "userProfile sample_runtime
      (sample_strategy no_options (JNull, JStr shared_body) (JNull, JNull, JNull))
      (JStr ''token'') = Inr shared_profile
   \<and> map email_primary (emails shared_profile) = [Some True, Some True]
   \<and> length (flagged (emails shared_profile)) = 2"
  by (simp add: userProfile_def sample_strategy_def WindowsLiveTokenStrategy_def
      parse_profile_def sample_parse_shared sample_build_shared flagged_def)
    (simp add: shared_profile_def)

subsection \<open>C2: one entry per present category\<close>



subsection \<open>C3: no access token, a fail with the field's name\<close>

text \<open>
  C3 says that \<^verbatim>\<open>authenticate\<close> signals \<^verbatim>\<open>fail\<close>, with the message
  \<^verbatim>\<open>You should provide\<close> followed by the configured field name, for every request that
  sets the field neither in the body nor in the query. The read \<^verbatim>\<open>req.body[field]\<close>
  also finds what the object inherits, so a field named after an inherited member is
  never missing. So: for every request that sets the configured field neither in the
  body nor in the query, and whose body and query, where there are any, inherit no
  truthy member of that name, \<^verbatim>\<open>authenticate\<close> signals \<^verbatim>\<open>fail\<close> (not \<^verbatim>\<open>error\<close>, and
  nothing is thrown) with that message.
\<close>

theorem no_token_fails:
  assumes "own (body req) (accessTokenField self) = None"
      and "own (query req) (accessTokenField self) = None"
      and "truthy (body req) \<longrightarrow> \<not> truthy (Inherited rt (body req) (accessTokenField self))"
      and "truthy (query req) \<longrightarrow> \<not> truthy (Inherited rt (query req) (accessTokenField self))"
  shows "authenticate rt self req =
           Fail (JObj [(''message'', JStr (''You should provide '' @ accessTokenField self))])"
proof -
  have "\<not> truthy (read_token rt (accessTokenField self) req)"
    using assms by (intro read_token_none) (simp_all add: js_get_inherited)
  then show ?thesis
    by (simp add: authenticate_no_token missing_token_def)
qed

text \<open>
  With the default field name and an empty body; and, with the field renamed to
  \<^verbatim>\<open>token\<close>, for a request that has only an \<^verbatim>\<open>access_token\<close>.
\<close>

theorem no_token_fails_witness:
  "own (body (in_body (JObj []))) ''access_token'' = None
   \<and> authenticate sample_runtime
        (sample_strategy no_options (JNull, JStr roberto_body) (JNull, JStr ''user'', JNull))
        (in_body (JObj []))
      = Fail (JObj [(''message'', JStr ''You should provide access_token'')])
   \<and> authenticate sample_runtime
        (sample_strategy renamed (JNull, JStr roberto_body) (JNull, JStr ''user'', JNull))
        (in_body (JObj [(''access_token'', JStr ''abc'')]))
      = Fail (JObj [(''message'', JStr ''You should provide token'')])"
proof -
  let ?s = "sample_strategy no_options (JNull, JStr roberto_body) (JNull, JStr ''user'', JNull)"
  let ?t = "sample_strategy renamed (JNull, JStr roberto_body) (JNull, JStr ''user'', JNull)"
  let ?r = "in_body (JObj [])"
  let ?q = "in_body (JObj [(''access_token'', JStr ''abc'')])"
  have f: "accessTokenField ?s = ''access_token''" "accessTokenField ?t = ''token''"
    by (simp_all add: sample_fields)
  have a: "own (body ?r) (accessTokenField ?s) = None"
          "own (query ?r) (accessTokenField ?s) = None"
          "truthy (body ?r) \<longrightarrow> \<not> truthy (Inherited sample_runtime (body ?r) (accessTokenField ?s))"
          "truthy (query ?r) \<longrightarrow> \<not> truthy (Inherited sample_runtime (query ?r) (accessTokenField ?s))"
    by (simp_all add: in_body_def f sample_runtime_def sample_inherited_def)
  have b: "own (body ?q) (accessTokenField ?t) = None"
          "own (query ?q) (accessTokenField ?t) = None"
          "truthy (body ?q) \<longrightarrow> \<not> truthy (Inherited sample_runtime (body ?q) (accessTokenField ?t))"
          "truthy (query ?q) \<longrightarrow> \<not> truthy (Inherited sample_runtime (query ?q) (accessTokenField ?t))"
    by (simp_all add: in_body_def f sample_runtime_def sample_inherited_def)
  from no_token_fails [OF a] no_token_fails [OF b] a(1) f
  show ?thesis by simp
qed

text \<open>
  Against C3 as it is written: the field is named \<^verbatim>\<open>constructor\<close>, and body and query
  are empty objects. Nothing sets the field; the read finds the inherited \<^verbatim>\<open>Object\<close>
  function, and the request is authenticated with it as the token.
\<close>

theorem inherited_member_is_a_token:
  "own (body nothing_set) ''constructor'' = None
   \<and> own (query nothing_set) ''constructor'' = None
   \<and> read_token sample_runtime ''constructor'' nothing_set = JFunction ''Object''
   \<and> authenticate sample_runtime
        (sample_strategy constructor_field (JNull, JStr roberto_body) (JNull, JStr ''user'', JNull))
        nothing_set
      = Success (JStr ''user'') JNull"
  by (simp add: authenticate_def Let_def sample_fields read_token_def js_or_def and_prop_def
      nothing_set_def sample_get loadUserProfile_def sample_userProfile_roberto verified_def)

subsection \<open>C4: where the token is read from\<close>

text \<open>
  C4 says that \<^verbatim>\<open>authenticate\<close> reads the access token from the body first and the
  query second, under the configured field name, the first non-empty value winning, and
  consults no other place of the request. That is \<^verbatim>\<open>authenticate\<close> of src/index.js:
  its token is the body's value when that is truthy, else the query's when that is
  truthy, else a falsy value; two requests with the same body and query give the same
  token; and the token decides between \<^verbatim>\<open>fail\<close> and loading the profile with it. The
  ES5 \<^verbatim>\<open>authenticate\<close> reads the fixed name \<^verbatim>\<open>access_token\<close>: it takes the same
  token when body or query has one, falls back to the request headers when they have
  none, and fails or loads accordingly.
\<close>

theorem token_from_body_then_query:
  "(truthy (body req) \<and> truthy (js_get rt (body req) (accessTokenField self))
        \<longrightarrow> read_token rt (accessTokenField self) req = js_get rt (body req) (accessTokenField self))
   \<and> (\<not> (truthy (body req) \<and> truthy (js_get rt (body req) (accessTokenField self)))
        \<and> truthy (query req) \<and> truthy (js_get rt (query req) (accessTokenField self))
        \<longrightarrow> read_token rt (accessTokenField self) req = js_get rt (query req) (accessTokenField self))
   \<and> (\<not> (truthy (body req) \<and> truthy (js_get rt (body req) (accessTokenField self)))
        \<and> \<not> (truthy (query req) \<and> truthy (js_get rt (query req) (accessTokenField self)))
        \<longrightarrow> \<not> truthy (read_token rt (accessTokenField self) req))
   \<and> (body req = body req' \<and> query req = query req'
        \<longrightarrow> read_token rt (accessTokenField self) req = read_token rt (accessTokenField self) req')
   \<and> (\<not> truthy (read_token rt (accessTokenField self) req)
        \<longrightarrow> authenticate rt self req = Fail (missing_token (accessTokenField self)))
   \<and> (truthy (read_token rt (accessTokenField self) req)
        \<longrightarrow> authenticate rt self req =
             (case loadUserProfile rt self (read_token rt (accessTokenField self) req) of
                Inl e \<Rightarrow> Error (Thrown e)
              | Inr p \<Rightarrow>
                  verified (verify self (verify_call self req (read_token rt (accessTokenField self) req)
                    (read_token rt (refreshTokenField self) req) p))))
   \<and> (truthy (read_token rt ''access_token'' req)
        \<longrightarrow> read_token_legacy rt ''access_token'' req = read_token rt ''access_token'' req)
   \<and> (\<not> truthy (read_token rt ''access_token'' req)
        \<longrightarrow> read_token_legacy rt ''access_token'' req = and_prop rt (headers req) ''access_token'')
   \<and> (\<not> truthy (read_token_legacy rt ''access_token'' req)
        \<longrightarrow> authenticate_legacy rt self req = Fail (missing_token ''access_token''))
   \<and> (truthy (read_token_legacy rt ''access_token'' req)
        \<longrightarrow> authenticate_legacy rt self req =
             (case loadUserProfile rt self (read_token_legacy rt ''access_token'' req) of
                Inl e \<Rightarrow> Error (Thrown e)
              | Inr p \<Rightarrow>
                  verified (verify self (verify_call self req (read_token_legacy rt ''access_token'' req)
                    (read_token_legacy rt ''refresh_token'' req) p))))"
proof -
  let ?f = "accessTokenField self"
  have "body req = body req' \<and> query req = query req'
      \<longrightarrow> read_token rt ?f req = read_token rt ?f req'"
    by (simp add: read_token_def)
  moreover have "truthy (read_token rt ''access_token'' req)
      \<longrightarrow> read_token_legacy rt ''access_token'' req = read_token rt ''access_token'' req"
    by (simp add: read_token_legacy_eq js_or_def)
  moreover have "\<not> truthy (read_token rt ''access_token'' req)
      \<longrightarrow> read_token_legacy rt ''access_token'' req = and_prop rt (headers req) ''access_token''"
    by (simp add: read_token_legacy_eq js_or_def)
  ultimately show ?thesis
    using read_token_body [of req rt ?f] read_token_query [of req rt ?f]
      read_token_none [of req rt ?f]
      authenticate_no_token [of rt self req] authenticate_token [of rt self req]
      authenticate_legacy_no_token [of rt req self] authenticate_legacy_token [of rt req self]
    by blast
qed

text \<open>
  A token in all three places: the body's is taken. An empty one in the body: the
  query's is taken. One in the headers only: src/index.js finds none, the ES5 code
  finds it.
\<close>

theorem token_from_body_then_query_witness:
  "read_token sample_runtime ''access_token'' token_in_both = JStr ''from body''
   \<and> read_token sample_runtime ''access_token'' token_in_query = JStr ''from query''
   \<and> read_token sample_runtime ''access_token'' token_in_headers = JUndefined
   \<and> read_token_legacy sample_runtime ''access_token'' token_in_headers = JStr ''access_token''"
proof -
  let ?s = "sample_strategy no_options (JNull, JStr roberto_body) (JNull, JStr ''user'', JNull)"
  have f: "accessTokenField ?s = ''access_token''"
    by (simp add: sample_fields)
  have 1: "read_token sample_runtime ''access_token'' token_in_both = JStr ''from body''"
    using token_from_body_then_query [of token_in_both sample_runtime ?s token_in_both]
    by (simp add: f token_in_both_def sample_get)
  have 2: "read_token sample_runtime ''access_token'' token_in_query = JStr ''from query''"
    using token_from_body_then_query [of token_in_query sample_runtime ?s token_in_query]
    by (simp add: f token_in_query_def sample_get)
  have 3: "read_token sample_runtime ''access_token'' token_in_headers = JUndefined"
    by (simp add: read_token_def token_in_headers_def in_headers_def js_or_def and_prop_def)
  have 4: "read_token_legacy sample_runtime ''access_token'' token_in_headers = JStr ''access_token''"
    using token_from_body_then_query [of token_in_headers sample_runtime ?s token_in_headers] 3
    by (simp add: token_in_headers_def in_headers_def and_prop_def sample_get)
  from 1 2 3 4 show ?thesis by simp
qed

text \<open>
  Against C4 as it is written, on the ES5 \<^verbatim>\<open>authenticate\<close>: the request of the
  repository's own test, with the tokens in the headers and neither body nor query.
  It is authenticated; src/index.js fails it.
\<close>

theorem legacy_reads_headers:
  "body token_in_headers = JUndefined \<and> query token_in_headers = JUndefined
   \<and> authenticate_legacy sample_runtime
        (sample_strategy no_options (JNull, JStr roberto_body) (JNull, JStr ''user'', JStr ''info''))
        token_in_headers
      = Success (JStr ''user'') (JStr ''info'')
   \<and> authenticate sample_runtime
        (sample_strategy no_options (JNull, JStr roberto_body) (JNull, JStr ''user'', JStr ''info''))
        token_in_headers
      = Fail (JObj [(''message'', JStr ''You should provide access_token'')])"
  by (simp add: authenticate_legacy_def authenticate_def read_token_legacy_def read_token_def
      token_in_headers_def in_headers_def js_or_def and_prop_def loadUserProfile_def
      sample_userProfile_roberto verified_def missing_token_def sample_get sample_fields)

subsection \<open>C5: a body that is not JSON\<close>

text \<open>
  C5: when the transport succeeds with a body on which \<^verbatim>\<open>JSON.parse\<close> throws its
  SyntaxError, \<^verbatim>\<open>userProfile\<close> calls back with the SyntaxError and no profile; and a
  request with a token, authenticated against such a response, ends in the \<^verbatim>\<open>error\<close>
  outcome with that SyntaxError.
\<close>

theorem invalid_json_is_a_syntax_error:
  "(oauth2_get self (profileURL self) tok = (err, b) \<and> \<not> truthy err
      \<and> json_parse rt b = Inl SyntaxError
      \<longrightarrow> userProfile rt self tok = Inl SyntaxError)
   \<and> (truthy (read_token rt (accessTokenField self) req)
      \<and> oauth2_get self (profileURL self) (read_token rt (accessTokenField self) req) = (err', b')
      \<and> \<not> truthy err' \<and> json_parse rt b' = Inl SyntaxError
      \<longrightarrow> authenticate rt self req = Error (Thrown SyntaxError))"
  by (simp add: authenticate_token loadUserProfile_def userProfile_def parse_profile_def)

text \<open>The body of the repository's test, \<^verbatim>\<open>not a JSON\<close>.\<close>

theorem invalid_json_is_a_syntax_error_witness:
  "json_parse sample_runtime (JStr ''not a JSON'') = Inl SyntaxError
   \<and> userProfile sample_runtime
        (sample_strategy no_options (JNull, JStr ''not a JSON'') (JNull, JStr ''user'', JNull))
        (JStr ''accessToken'') = Inl SyntaxError
   \<and> authenticate sample_runtime
        (sample_strategy no_options (JNull, JStr ''not a JSON'') (JNull, JStr ''user'', JNull))
        token_in_body = Error (Thrown SyntaxError)"
proof -
  let ?s = "sample_strategy no_options (JNull, JStr ''not a JSON'') (JNull, JStr ''user'', JNull)"
  have n: "json_parse sample_runtime (JStr ''not a JSON'') = Inl SyntaxError"
    by (simp add: json_parse_def sample_runtime_def roberto_body_def shared_body_def expired_body_def)
  have g: "\<And>t. oauth2_get ?s (profileURL ?s) t = (JNull, JStr ''not a JSON'')"
    by (simp add: sample_strategy_def WindowsLiveTokenStrategy_def)
  have t: "truthy (read_token sample_runtime (accessTokenField ?s) token_in_body)"
    by (simp add: sample_fields tokens_in_body)
  from invalid_json_is_a_syntax_error [of ?s "JStr ''accessToken''" JNull "JStr ''not a JSON''"
      sample_runtime token_in_body JNull "JStr ''not a JSON''"] n g t
  show ?thesis by simp
qed

subsection \<open>C6: a transport error\<close>

text \<open>
  C6 says that a transport error whose payload parses as JSON becomes an internal OAuth
  error with the provider's message and code, and any other one an internal OAuth error
  with the generic message around the raw error. The \<^verbatim>\<open>catch\<close> also takes the
  TypeError of reading \<^verbatim>\<open>.message\<close> off a missing \<^verbatim>\<open>error\<close> member. So, for every
  transport error: when the payload parses and the parsed value has an \<^verbatim>\<open>error\<close>
  member that is neither \<^verbatim>\<open>null\<close> nor \<^verbatim>\<open>undefined\<close>, \<^verbatim>\<open>userProfile\<close> calls back
  with an internal OAuth error carrying that member's \<^verbatim>\<open>message\<close> and \<^verbatim>\<open>code\<close>;
  when the payload does not parse, or parses to a value with no such member, with one
  carrying \<^verbatim>\<open>Failed to fetch user profile\<close> and the transport error. No profile
  either way.
\<close>

theorem transport_error_is_wrapped:
  assumes "oauth2_get self (profileURL self) tok = (err, b)" and "truthy err"
  shows "(json_parse rt (js_get rt err ''data'') = Inr ej
            \<and> \<not> nullish ej \<and> \<not> nullish (js_get rt ej ''error'')
            \<longrightarrow> userProfile rt self tok =
                  Inl (InternalOAuthError (js_get rt (js_get rt ej ''error'') ''message'')
                         (js_get rt (js_get rt ej ''error'') ''code'')))
       \<and> (isl (json_parse rt (js_get rt err ''data''))
            \<or> json_parse rt (js_get rt err ''data'') = Inr ej
               \<and> (nullish ej \<or> nullish (js_get rt ej ''error''))
            \<longrightarrow> userProfile rt self tok =
                  Inl (InternalOAuthError (JStr ''Failed to fetch user profile'') err))"
proof -
  have "userProfile rt self tok = Inl (provider_error rt err)"
    using assms by (simp add: userProfile_def)
  then show ?thesis
    using provider_error_message [of rt err ej] provider_error_generic [of rt err ej] by auto
qed

text \<open>An expired token, as the provider reports it; and a connection reset.\<close>

theorem transport_error_is_wrapped_witness:
  "userProfile sample_runtime
      (sample_strategy no_options (expired_error, JUndefined) (JNull, JNull, JNull))
      (JStr ''accessToken'')
     = Inl (InternalOAuthError (JStr ''The access token has expired.'') (JStr ''request_token_expired''))
   \<and> userProfile sample_runtime
      (sample_strategy no_options (network_error, JUndefined) (JNull, JNull, JNull))
      (JStr ''accessToken'')
     = Inl (InternalOAuthError (JStr ''Failed to fetch user profile'') network_error)"
proof -
  let ?s = "sample_strategy no_options (expired_error, JUndefined) (JNull, JNull, JNull)"
  let ?n = "sample_strategy no_options (network_error, JUndefined) (JNull, JNull, JNull)"
  have g: "oauth2_get ?s (profileURL ?s) (JStr ''accessToken'') = (expired_error, JUndefined)"
          "oauth2_get ?n (profileURL ?n) (JStr ''accessToken'') = (network_error, JUndefined)"
    by (simp_all add: sample_strategy_def WindowsLiveTokenStrategy_def)
  have t: "truthy expired_error" "truthy network_error"
    by (simp_all add: expired_error_def network_error_def)
  have p: "json_parse sample_runtime (js_get sample_runtime expired_error ''data'') = Inr expired"
    by (simp add: expired_error_def json_parse_def sample_runtime_def roberto_body_def
        shared_body_def expired_body_def js_get_def)
  have q: "isl (json_parse sample_runtime (js_get sample_runtime network_error ''data''))"
    by (simp add: network_error_def json_parse_def sample_get)
      (simp add: sample_runtime_def roberto_body_def shared_body_def expired_body_def)
  have e: "\<not> nullish expired" "\<not> nullish (js_get sample_runtime expired ''error'')"
          "js_get sample_runtime (js_get sample_runtime expired ''error'') ''message''
             = JStr ''The access token has expired.''"
          "js_get sample_runtime (js_get sample_runtime expired ''error'') ''code''
             = JStr ''request_token_expired''"
    by (simp_all add: expired_def nullish_def sample_get)
  from transport_error_is_wrapped [OF g(1) t(1), of sample_runtime expired]
       transport_error_is_wrapped [OF g(2) t(2), of sample_runtime JNull] p q e
  show ?thesis by simp
qed

text \<open>
  Against C6 as it is written: the payload \<^verbatim>\<open>{}\<close> parses as JSON, and the error
  carries the generic message.
\<close>

theorem json_payload_without_error_member:
  "json_parse sample_runtime (js_get sample_runtime bare_error ''data'') = Inr (JObj [])
   \<and> userProfile sample_runtime
      (sample_strategy no_options (bare_error, JUndefined) (JNull, JNull, JNull))
      (JStr ''accessToken'')
     = Inl (InternalOAuthError (JStr ''Failed to fetch user profile'') bare_error)"
proof -
  have d: "js_get sample_runtime bare_error ''data'' = JStr ''{}''"
    by (simp add: bare_error_def sample_get)
  have p: "json_parse sample_runtime (JStr ''{}'') = Inr (JObj [])"
    by (simp add: json_parse_def sample_runtime_def roberto_body_def shared_body_def
        expired_body_def)
  have t: "truthy bare_error"
    by (simp add: bare_error_def)
  show ?thesis
    by (simp add: userProfile_def sample_strategy_def WindowsLiveTokenStrategy_def
        provider_error_def d p t read_prop_def nullish_def sample_get)
qed

subsection \<open>C7: what the verify callback's answer becomes\<close>

text \<open>
  C7: of \<^verbatim>\<open>done(error, user, info)\<close>, a truthy error gives the \<^verbatim>\<open>error\<close> outcome;
  otherwise a falsy user gives \<^verbatim>\<open>fail\<close> with \<open>info\<close>; otherwise \<^verbatim>\<open>success\<close> carries
  \<open>user\<close> and \<open>info\<close> as they were given. And that is the outcome of \<^verbatim>\<open>authenticate\<close>
  for a request whose token loads a profile, when the callback answers so.
\<close>

theorem done_decides_outcome:
  "(truthy err \<longrightarrow> verified (err, user, info) = Error (Supplied err))
   \<and> (\<not> truthy err \<and> \<not> truthy user \<longrightarrow> verified (err, user, info) = Fail info)
   \<and> (\<not> truthy err \<and> truthy user \<longrightarrow> verified (err, user, info) = Success user info)
   \<and> (truthy (read_token rt (accessTokenField self) req)
        \<and> loadUserProfile rt self (read_token rt (accessTokenField self) req) = Inr p
        \<and> verify self (verify_call self req (read_token rt (accessTokenField self) req)
              (read_token rt (refreshTokenField self) req) p) = (err, user, info)
        \<longrightarrow> authenticate rt self req = verified (err, user, info))"
  by (simp add: verified_cases authenticate_token)

text \<open>A callback that gives a user, one that gives \<^verbatim>\<open>false\<close>, one that gives an error.\<close>

theorem done_decides_outcome_witness:
  "authenticate sample_runtime
      (sample_strategy no_options (JNull, JStr roberto_body)
         (JNull, JObj [(''id'', JStr ''8c8ce076ca27823f'')], JObj [(''info'', JStr ''foo'')]))
      token_in_body
     = Success (JObj [(''id'', JStr ''8c8ce076ca27823f'')]) (JObj [(''info'', JStr ''foo'')])
   \<and> authenticate sample_runtime
      (sample_strategy no_options (JNull, JStr roberto_body)
         (JNull, JBool False, JObj [(''info'', JStr ''foo'')]))
      token_in_body
     = Fail (JObj [(''info'', JStr ''foo'')])
   \<and> authenticate sample_runtime
      (sample_strategy no_options (JNull, JStr roberto_body)
         (JStr ''database is down'', JObj [(''id'', JStr ''8c8ce076ca27823f'')], JNull))
      token_in_body
     = Error (Supplied (JStr ''database is down''))"
proof -
  let ?u = "JObj [(''id'', JStr ''8c8ce076ca27823f'')]"
  let ?i = "JObj [(''info'', JStr ''foo'')]"
  have l: "\<And>d. loadUserProfile sample_runtime (sample_strategy no_options (JNull, JStr roberto_body) d)
      (JStr ''access_token'') = Inr roberto_profile"
    by (simp add: loadUserProfile_def sample_userProfile_roberto)
  have 1: "authenticate sample_runtime
      (sample_strategy no_options (JNull, JStr roberto_body) (JNull, ?u, ?i)) token_in_body
     = Success ?u ?i"
    using done_decides_outcome [of JNull ?u ?i sample_runtime
        "sample_strategy no_options (JNull, JStr roberto_body) (JNull, ?u, ?i)"
        token_in_body roberto_profile]
    by (simp add: sample_fields tokens_in_body l)
  have 2: "authenticate sample_runtime
      (sample_strategy no_options (JNull, JStr roberto_body) (JNull, JBool False, ?i)) token_in_body
     = Fail ?i"
    using done_decides_outcome [of JNull "JBool False" ?i sample_runtime
        "sample_strategy no_options (JNull, JStr roberto_body) (JNull, JBool False, ?i)"
        token_in_body roberto_profile]
    by (simp add: sample_fields tokens_in_body l)
  have 3: "authenticate sample_runtime
      (sample_strategy no_options (JNull, JStr roberto_body) (JStr ''database is down'', ?u, JNull))
      token_in_body
     = Error (Supplied (JStr ''database is down''))"
    using done_decides_outcome [of "JStr ''database is down''" ?u JNull sample_runtime
        "sample_strategy no_options (JNull, JStr roberto_body) (JStr ''database is down'', ?u, JNull)"
        token_in_body roberto_profile]
    by (simp add: sample_fields tokens_in_body l)
  from 1 2 3 show ?thesis by simp
qed

subsection \<open>C8: what the verify callback is called with\<close>

text \<open>
  C8: for every request whose token loads a profile, the outcome is what \<^verbatim>\<open>verified\<close>
  makes of the callback's answer to \<open>(request, accessToken, refreshToken, profile)\<close>
  when \<^verbatim>\<open>passReqToCallback\<close> is truthy, \<^verbatim>\<open>true\<close> in particular, and of its answer to
  \<open>(accessToken, refreshToken, profile)\<close> when it is falsy, \<^verbatim>\<open>false\<close> or not set in
  particular. This holds for every callback, so the callback is asked at those
  arguments and no others.
\<close>

theorem verify_receives_request_on_demand:
  assumes "truthy (read_token rt (accessTokenField self) req)"
      and "loadUserProfile rt self (read_token rt (accessTokenField self) req) = Inr p"
  shows "(truthy (passReqToCallback self) \<longrightarrow>
            authenticate rt self req =
              verified (verify self (WithReq req (read_token rt (accessTokenField self) req)
                (read_token rt (refreshTokenField self) req) p)))
       \<and> (\<not> truthy (passReqToCallback self) \<longrightarrow>
            authenticate rt self req =
              verified (verify self (WithoutReq (read_token rt (accessTokenField self) req)
                (read_token rt (refreshTokenField self) req) p)))
       \<and> (passReqToCallback self = JBool True \<longrightarrow>
            authenticate rt self req =
              verified (verify self (WithReq req (read_token rt (accessTokenField self) req)
                (read_token rt (refreshTokenField self) req) p)))
       \<and> (passReqToCallback self = JBool False \<or> passReqToCallback self = JUndefined \<longrightarrow>
            authenticate rt self req =
              verified (verify self (WithoutReq (read_token rt (accessTokenField self) req)
                (read_token rt (refreshTokenField self) req) p)))"
  using assms by (auto simp: authenticate_token verify_call_def)

text \<open>
  With the callback that hands back what it was given: it sees the request's body when
  the option is \<^verbatim>\<open>true\<close>, and no request when the option is not set.
\<close>

theorem verify_receives_request_on_demand_witness:
  "authenticate sample_runtime (echo_strategy (JBool True)) token_in_body =
     Success (JObj [(''accessToken'', JStr ''access_token''), (''refreshToken'', JStr ''refresh_token''),
                    (''id'', JStr ''8c8ce076ca27823f'')])
       (JObj [(''access_token'', JStr ''access_token''), (''refresh_token'', JStr ''refresh_token'')])
   \<and> authenticate sample_runtime (echo_strategy JUndefined) token_in_body =
     Success (JObj [(''accessToken'', JStr ''access_token''), (''refreshToken'', JStr ''refresh_token''),
                    (''id'', JStr ''8c8ce076ca27823f'')])
       JUndefined"
proof -
  have t: "\<And>flag. truthy (read_token sample_runtime (accessTokenField (echo_strategy flag)) token_in_body)"
    by (simp add: echo_fields tokens_in_body)
  have l: "\<And>flag. loadUserProfile sample_runtime (echo_strategy flag)
      (read_token sample_runtime (accessTokenField (echo_strategy flag)) token_in_body)
        = Inr roberto_profile"
    by (rule echo_load)
  have 1: "authenticate sample_runtime (echo_strategy (JBool True)) token_in_body =
      verified (echo (WithReq token_in_body (JStr ''access_token'') (JStr ''refresh_token'') roberto_profile))"
    using verify_receives_request_on_demand [OF t l, of "JBool True"]
    by (simp add: echo_fields tokens_in_body)
  have 2: "authenticate sample_runtime (echo_strategy JUndefined) token_in_body =
      verified (echo (WithoutReq (JStr ''access_token'') (JStr ''refresh_token'') roberto_profile))"
    using verify_receives_request_on_demand [OF t l, of JUndefined]
    by (simp add: echo_fields tokens_in_body)
  show ?thesis
    unfolding 1 2
    by (simp add: echo_def verified_def roberto_profile_def token_in_body_def in_body_def)
qed

subsection \<open>C10: a falsy token is no token\<close>





end
